theory Spec2Isabelle
  imports Complex_Main "HOL-Library.Char_ord" "HOL-Library.List_Lexorder"
    "HOL-Library.Monad_Syntax"
begin

section \<open>JSON values\<close>

text \<open>
  Python values that travel between agent, collector and storage are JSON values.
  A Python \<open>dict\<close> with string keys is an association list in insertion order, looked up
  with \<open>map_of\<close>; \<open>None\<close> is \<open>JNull\<close>. A float is carried as the number it stands for,
  or as one of the values that are no number (\<open>Infinity\<close> and \<open>-Infinity\<close>, told apart
  by the sign, and \<open>NaN\<close>); no float arithmetic is done by either program, and the
  conversions between integers and floats are the library's.
\<close>

datatype pyfloat = Finite real | Infinity bool | NaN

datatype json =
    JNull
  | JBool bool
  | JInt int
  | JFloat pyfloat
  | JString string
  | JArray "json list"
  | JObject "(string \<times> json) list"

fun is_object :: "json \<Rightarrow> bool" where
  "is_object (JObject kvs) = True"
| "is_object v = False"

definition opt_str :: "string option \<Rightarrow> json" where
  "opt_str s = (case s of None \<Rightarrow> JNull | Some t \<Rightarrow> JString t)"

definition opt_int :: "int option \<Rightarrow> json" where
  "opt_int i = (case i of None \<Rightarrow> JNull | Some n \<Rightarrow> JInt n)"

definition opt_float :: "pyfloat option \<Rightarrow> json" where
  "opt_float x = (case x of None \<Rightarrow> JNull | Some r \<Rightarrow> JFloat r)"

section \<open>The sampling agent (src/agent/agent.py)\<close>

text \<open>
  The exceptions an operating-system query can raise, with the text \<open>str(e)\<close>. The three
  psutil classes are the ones named by the \<open>except\<close> clause of the process listing;
  \<open>OtherException\<close> stands for every other subclass of \<open>Exception\<close> (\<open>OSError\<close>,
  \<open>PermissionError\<close>, \<open>psutil.Error\<close>, ...).
\<close>

datatype exn =
    NoSuchProcess string
  | AccessDenied string
  | ZombieProcess string
  | OtherException string

fun str_exn :: "exn \<Rightarrow> string" where
  "str_exn (NoSuchProcess m) = m"
| "str_exn (AccessDenied m) = m"
| "str_exn (ZombieProcess m) = m"
| "str_exn (OtherException m) = m"

text \<open>\<open>Inl e\<close>: the call raised \<open>e\<close>; \<open>Inr v\<close>: it returned \<open>v\<close>.\<close>

type_synonym 'a outcome = "exn + 'a"

record proc_info =
  info_pid :: int
  info_name :: "string option"
  info_username :: "string option"

record suser =
  su_name :: string
  su_terminal :: "string option"

text \<open>
  The execution environment of one call of \<open>get_system_info\<close>: what each library call
  does there. \<open>cpu_freq\<close> is \<open>None\<close> where the platform reports no frequency, otherwise
  the \<open>current\<close> field of its result.
\<close>

record host =
  cpu_count_physical :: "int option outcome"
  cpu_count_logical :: "int option outcome"
  cpu_freq :: "pyfloat option outcome"
  cpu_percent :: "pyfloat outcome"
  process_iter :: "proc_info list outcome"
  users :: "suser list outcome"
  platform_system :: string
  platform_version :: string

text \<open>
  The first \<open>try\<close> block: the four entries of the dict literal are evaluated in order and
  \<open>except Exception\<close> turns the first exception into \<open>{"error": str(e)}\<close>.
\<close>

definition collect_cpu_info :: "host \<Rightarrow> json" where
  "collect_cpu_info h =
     (case cpu_count_physical h of
        Inl e \<Rightarrow> JObject [(''error'', JString (str_exn e))]
      | Inr pc \<Rightarrow>
     (case cpu_count_logical h of
        Inl e \<Rightarrow> JObject [(''error'', JString (str_exn e))]
      | Inr tc \<Rightarrow>
     (case cpu_freq h of
        Inl e \<Rightarrow> JObject [(''error'', JString (str_exn e))]
      | Inr fr \<Rightarrow>
     (case cpu_percent h of
        Inl e \<Rightarrow> JObject [(''error'', JString (str_exn e))]
      | Inr up \<Rightarrow>
          JObject [(''physical_cores'', opt_int pc),
                   (''total_cores'', opt_int tc),
                   (''frequency'', (case fr of None \<Rightarrow> JString ''N/A'' | Some c \<Rightarrow> JFloat c)),
                   (''usage_percent'', JFloat up)]))))"

definition process_entry :: "proc_info \<Rightarrow> json" where
  "process_entry p =
     JObject [(''pid'', JInt (info_pid p)),
              (''name'', opt_str (info_name p)),
              (''username'', opt_str (info_username p))]"

text \<open>
  The second \<open>try\<close> block catches \<open>psutil.NoSuchProcess\<close>, \<open>psutil.AccessDenied\<close> and
  \<open>psutil.ZombieProcess\<close> only: any other exception leaves the function.
\<close>

definition collect_processes :: "host \<Rightarrow> json outcome" where
  "collect_processes h =
     (case process_iter h of
        Inr ps \<Rightarrow> Inr (JArray (map process_entry ps))
      | Inl (NoSuchProcess m) \<Rightarrow>
          Inr (JArray [JObject [(''error'',
                 JString (''No se pudo acceder a todos los procesos: '' @ m))]])
      | Inl (AccessDenied m) \<Rightarrow>
          Inr (JArray [JObject [(''error'',
                 JString (''No se pudo acceder a todos los procesos: '' @ m))]])
      | Inl (ZombieProcess m) \<Rightarrow>
          Inr (JArray [JObject [(''error'',
                 JString (''No se pudo acceder a todos los procesos: '' @ m))]])
      | Inl (OtherException m) \<Rightarrow> Inl (OtherException m))"

definition user_entry :: "suser \<Rightarrow> json" where
  "user_entry u = JObject [(''user'', JString (su_name u)), (''terminal'', opt_str (su_terminal u))]"

definition collect_users :: "host \<Rightarrow> json" where
  "collect_users h =
     (case users h of
        Inr us \<Rightarrow> JArray (map user_entry us)
      | Inl e \<Rightarrow> JObject [(''error'', JString (str_exn e))])"

definition get_system_info :: "host \<Rightarrow> json outcome" where
  "get_system_info h =
     (let cpu_info = collect_cpu_info h in
      case collect_processes h of
        Inl e \<Rightarrow> Inl e
      | Inr processes \<Rightarrow>
          (let active_users = collect_users h in
           Inr (JObject [(''os_name'', JString (platform_system h)),
                         (''os_version'', JString (platform_version h)),
                         (''cpu_info'', cpu_info),
                         (''running_processes'', processes),
                         (''logged_in_users'', active_users)])))"

text \<open>An environment in which all three queries raise, the process listing an \<open>OSError\<close>.\<close>

definition host_all_fail :: host where
  "host_all_fail =
     \<lparr>cpu_count_physical = Inl (OtherException ''cpu''),
      cpu_count_logical = Inl (OtherException ''cpu''),
      cpu_freq = Inl (OtherException ''cpu''),
      cpu_percent = Inl (OtherException ''cpu''),
      process_iter = Inl (OtherException ''[Errno 2] No such file or directory: /proc''),
      users = Inl (OtherException ''users''),
      platform_system = ''Linux'',
      platform_version = ''#1 SMP''\<rparr>"

section \<open>The collector (src/api/main.py)\<close>

subsection \<open>Configuration and failures\<close>

definition API_TOKEN :: string where
  "API_TOKEN = ''micompania_secret_token_12345''"

definition DATA_DIR :: string where
  "DATA_DIR = ''data''"

text \<open>
  How a request can fail: an \<open>HTTPException\<close> with status code and detail, the
  framework's request validation error (status 422), or an exception nobody handles
  (status 500).
\<close>

datatype py_error = IndexError

datatype failure =
    HTTPException nat string
  | RequestValidationError
  | Unhandled py_error

subsection \<open>verify_token\<close>

definition startswith :: "string \<Rightarrow> string \<Rightarrow> bool" where
  "startswith s p = (take (length p) s = p)"

text \<open>\<open>s.split(c)\<close> for a separator of one character: one part more than separators.\<close>

fun split :: "char \<Rightarrow> string \<Rightarrow> string list" where
  "split c [] = [[]]"
| "split c (x # xs) =
     (if x = c then [] # split c xs
      else (case split c xs of [] \<Rightarrow> [[x]] | y # ys \<Rightarrow> (x # y) # ys))"

text \<open>
  The two details are \<open>Formato de token inv\<acute>alido\<close> and
  \<open>Token de autorizaci\<acute>on inv\<acute>alido\<close>, the accented letters as UTF-8 bytes.
  \<open>authorization.split(" ")[1]\<close> raises \<open>IndexError\<close> on a list of one part.
\<close>

definition verify_token :: "string \<Rightarrow> failure + unit" where
  "verify_token authorization =
     (if \<not> startswith authorization ''Bearer '' then
        Inl (HTTPException 401 (''Formato de token inv'' @ [CHR 0xC3, CHR 0xA1] @ ''lido''))
      else
        (case split CHR '' '' authorization of
           p0 # token # rest \<Rightarrow>
             (if token \<noteq> API_TOKEN then
                Inl (HTTPException 401
                      (''Token de autorizaci'' @ [CHR 0xC3, CHR 0xB3] @ ''n inv''
                        @ [CHR 0xC3, CHR 0xA1] @ ''lido''))
              else Inr ())
         | _ \<Rightarrow> Inl (Unhandled IndexError)))"

subsection \<open>The pydantic models\<close>

text \<open>
  The four \<open>BaseModel\<close> classes. A field typed \<open>T | None = None\<close> is an option; the two
  unions of \<open>SystemData\<close> are datatypes with one constructor for each member.
\<close>

datatype float_or_str = FloatVal pyfloat | StrVal string

record CPUInfo =
  physical_cores :: "int option"
  total_cores :: "int option"
  frequency :: "float_or_str option"
  usage_percent :: "pyfloat option"
  error :: "string option"

record ProcessInfo =
  pid :: int
  name :: string
  username :: "string option"

record UserInfo =
  user :: string
  terminal :: "string option"

datatype process_entry = PInfo ProcessInfo | PDict "(string \<times> json) list"

datatype users_field = UList "UserInfo list" | UDict "(string \<times> json) list"

record SystemData =
  os_name :: string
  os_version :: string
  cpu_info :: CPUInfo
  running_processes :: "process_entry list"
  logged_in_users :: users_field

text \<open>The names of the fields that \<open>SystemData\<close> declares.\<close>

definition SystemData_fields :: "string list" where
  "SystemData_fields =
     [''os_name'', ''os_version'', ''cpu_info'', ''running_processes'', ''logged_in_users'']"

text \<open>
  Validation of the decoded request body, as pydantic does it for these annotations with
  its default configuration: a model is built from an object, a key that is not a field
  of the model is ignored (no class sets \<open>extra\<close> to \<open>forbid\<close>), a missing required field
  or a value of the wrong type fails the validation.

  Values are converted in lax mode. The conversions between number types are the
  library's: a string read as a number, an integer rounded to a float (it fails beyond
  the range of floats), a float taken as an integer (it fails for a fraction and for a
  float that is too large). They are parameters here, and so is the member that the
  smart mode of a union selects for an object that is a \<open>ProcessInfo\<close> only after such a
  conversion, which has changed between releases of the library.
\<close>

record lax_mode =
  str_as_int :: "string \<Rightarrow> int option"
  str_as_float :: "string \<Rightarrow> pyfloat option"
  int_as_float :: "int \<Rightarrow> pyfloat option"
  float_as_int :: "pyfloat \<Rightarrow> int option"
  union_prefers_model :: bool

fun validate_str :: "json \<Rightarrow> string option" where
  "validate_str (JString s) = Some s"
| "validate_str v = None"

fun validate_int :: "lax_mode \<Rightarrow> json \<Rightarrow> int option" where
  "validate_int lax (JInt i) = Some i"
| "validate_int lax (JBool b) = Some (if b then 1 else 0)"
| "validate_int lax (JFloat r) = float_as_int lax r"
| "validate_int lax (JString s) = str_as_int lax s"
| "validate_int lax v = None"

fun validate_float :: "lax_mode \<Rightarrow> json \<Rightarrow> pyfloat option" where
  "validate_float lax (JFloat r) = Some r"
| "validate_float lax (JInt i) = int_as_float lax i"
| "validate_float lax (JBool b) = Some (Finite (if b then 1 else 0))"
| "validate_float lax (JString s) = str_as_float lax s"
| "validate_float lax v = None"

text \<open>
  In strict mode nothing is converted: only an integer is an \<open>int\<close>.
\<close>

fun validate_int_strict :: "json \<Rightarrow> int option" where
  "validate_int_strict (JInt i) = Some i"
| "validate_int_strict v = None"

text \<open>\<open>float | str\<close>: a string is a string, a number or a boolean becomes a float.\<close>

fun validate_float_or_str :: "lax_mode \<Rightarrow> json \<Rightarrow> float_or_str option" where
  "validate_float_or_str lax (JString s) = Some (StrVal s)"
| "validate_float_or_str lax (JFloat r) = Some (FloatVal r)"
| "validate_float_or_str lax (JInt i) = map_option FloatVal (int_as_float lax i)"
| "validate_float_or_str lax (JBool b) = Some (FloatVal (Finite (if b then 1 else 0)))"
| "validate_float_or_str lax v = None"

text \<open>A field \<open>T | None = None\<close>: absent and \<open>null\<close> both give \<open>None\<close>.\<close>

fun optional :: "(json \<Rightarrow> 'a option) \<Rightarrow> json option \<Rightarrow> 'a option option" where
  "optional f None = Some None"
| "optional f (Some JNull) = Some None"
| "optional f (Some v) = map_option Some (f v)"

text \<open>A required field: absent fails.\<close>

fun required :: "(json \<Rightarrow> 'a option) \<Rightarrow> json option \<Rightarrow> 'a option" where
  "required f None = None"
| "required f (Some v) = f v"

fun validate_CPUInfo :: "lax_mode \<Rightarrow> json \<Rightarrow> CPUInfo option" where
  "validate_CPUInfo lax (JObject kvs) =
     do {
       pc \<leftarrow> optional (validate_int lax) (map_of kvs ''physical_cores'');
       tc \<leftarrow> optional (validate_int lax) (map_of kvs ''total_cores'');
       fr \<leftarrow> optional (validate_float_or_str lax) (map_of kvs ''frequency'');
       up \<leftarrow> optional (validate_float lax) (map_of kvs ''usage_percent'');
       er \<leftarrow> optional validate_str (map_of kvs ''error'');
       Some \<lparr>physical_cores = pc, total_cores = tc, frequency = fr,
             usage_percent = up, error = er\<rparr>
     }"
| "validate_CPUInfo lax v = None"

fun validate_UserInfo :: "json \<Rightarrow> UserInfo option" where
  "validate_UserInfo (JObject kvs) =
     do {
       u \<leftarrow> required validate_str (map_of kvs ''user'');
       t \<leftarrow> optional validate_str (map_of kvs ''terminal'');
       Some \<lparr>user = u, terminal = t\<rparr>
     }"
| "validate_UserInfo v = None"

text \<open>
  A \<open>ProcessInfo\<close> from an object, with the validation of \<open>int\<close> that the mode gives;
  keys that are no field of the model are ignored.
\<close>

fun validate_ProcessInfo :: "(json \<Rightarrow> int option) \<Rightarrow> json \<Rightarrow> ProcessInfo option" where
  "validate_ProcessInfo vint (JObject kvs) =
     do {
       p \<leftarrow> required vint (map_of kvs ''pid'');
       n \<leftarrow> required validate_str (map_of kvs ''name'');
       u \<leftarrow> optional validate_str (map_of kvs ''username'');
       Some \<lparr>pid = p, name = n, username = u\<rparr>
     }"
| "validate_ProcessInfo vint v = None"

text \<open>
  \<open>ProcessInfo | dict\<close>: every object is a \<open>dict\<close>, so every object is accepted, and
  nothing else is (a \<open>ProcessInfo\<close> is built from an object too). An object that is a
  \<open>ProcessInfo\<close> as it stands (an integer \<open>pid\<close>, a string \<open>name\<close>, a \<open>username\<close> that is
  a string, \<open>null\<close> or absent) becomes a \<open>ProcessInfo\<close>; one that is a \<open>ProcessInfo\<close> only
  after a lax conversion of its \<open>pid\<close> becomes what the library's smart mode prefers;
  every other object stays the dict it is.
\<close>

fun validate_process_entry :: "lax_mode \<Rightarrow> json \<Rightarrow> process_entry option" where
  "validate_process_entry lax (JObject kvs) =
     (case validate_ProcessInfo validate_int_strict (JObject kvs) of
        Some p \<Rightarrow> Some (PInfo p)
      | None \<Rightarrow>
          (case validate_ProcessInfo (validate_int lax) (JObject kvs) of
             Some p \<Rightarrow> Some (if union_prefers_model lax then PInfo p else PDict kvs)
           | None \<Rightarrow> Some (PDict kvs)))"
| "validate_process_entry lax v = None"

text \<open>All elements of a list must validate; the first failure fails the list.\<close>

fun validate_list :: "(json \<Rightarrow> 'a option) \<Rightarrow> json list \<Rightarrow> 'a list option" where
  "validate_list f [] = Some []"
| "validate_list f (x # xs) =
     do { y \<leftarrow> f x; ys \<leftarrow> validate_list f xs; Some (y # ys) }"

fun validate_running_processes :: "lax_mode \<Rightarrow> json \<Rightarrow> process_entry list option" where
  "validate_running_processes lax (JArray xs) = validate_list (validate_process_entry lax) xs"
| "validate_running_processes lax v = None"

text \<open>\<open>list[UserInfo] | dict\<close>: an array goes to the first member, an object to the second.\<close>

fun validate_logged_in_users :: "json \<Rightarrow> users_field option" where
  "validate_logged_in_users (JArray xs) = map_option UList (validate_list validate_UserInfo xs)"
| "validate_logged_in_users (JObject kvs) = Some (UDict kvs)"
| "validate_logged_in_users v = None"

fun validate_SystemData :: "lax_mode \<Rightarrow> json \<Rightarrow> SystemData option" where
  "validate_SystemData lax (JObject kvs) =
     do {
       n \<leftarrow> required validate_str (map_of kvs ''os_name'');
       v \<leftarrow> required validate_str (map_of kvs ''os_version'');
       c \<leftarrow> required (validate_CPUInfo lax) (map_of kvs ''cpu_info'');
       ps \<leftarrow> required (validate_running_processes lax) (map_of kvs ''running_processes'');
       us \<leftarrow> required validate_logged_in_users (map_of kvs ''logged_in_users'');
       Some \<lparr>os_name = n, os_version = v, cpu_info = c,
             running_processes = ps, logged_in_users = us\<rparr>
     }"
| "validate_SystemData lax v = None"

text \<open>\<open>model_dump()\<close>: the model as a dict, every field present, \<open>None\<close> as \<open>null\<close>.\<close>

definition dump_CPUInfo :: "CPUInfo \<Rightarrow> json" where
  "dump_CPUInfo c =
     JObject [(''physical_cores'', opt_int (physical_cores c)),
              (''total_cores'', opt_int (total_cores c)),
              (''frequency'', (case frequency c of None \<Rightarrow> JNull
                                | Some (FloatVal r) \<Rightarrow> JFloat r
                                | Some (StrVal s) \<Rightarrow> JString s)),
              (''usage_percent'', opt_float (usage_percent c)),
              (''error'', opt_str (error c))]"

fun dump_process_entry :: "process_entry \<Rightarrow> json" where
  "dump_process_entry (PInfo p) =
     JObject [(''pid'', JInt (pid p)), (''name'', JString (name p)),
              (''username'', opt_str (username p))]"
| "dump_process_entry (PDict kvs) = JObject kvs"

definition dump_UserInfo :: "UserInfo \<Rightarrow> json" where
  "dump_UserInfo u = JObject [(''user'', JString (user u)), (''terminal'', opt_str (terminal u))]"

fun dump_users_field :: "users_field \<Rightarrow> json" where
  "dump_users_field (UList us) = JArray (map dump_UserInfo us)"
| "dump_users_field (UDict kvs) = JObject kvs"

definition model_dump :: "SystemData \<Rightarrow> json" where
  "model_dump d =
     JObject [(''os_name'', JString (os_name d)),
              (''os_version'', JString (os_version d)),
              (''cpu_info'', dump_CPUInfo (cpu_info d)),
              (''running_processes'', JArray (map dump_process_entry (running_processes d))),
              (''logged_in_users'', dump_users_field (logged_in_users d))]"

subsection \<open>Storage\<close>

text \<open>
  A line of a partition file, by what the reading loop does with it: its bytes are not
  UTF-8 (\<open>Undecodable\<close>); or it is text and \<open>line.strip()\<close> is empty (\<open>Blank\<close>),
  \<open>json.loads(line)\<close> returns a value (\<open>Record\<close>), or \<open>json.loads(line)\<close> raises
  (\<open>Corrupt\<close>). \<open>json.dumps(record) + "\n"\<close> writes a line that \<open>json.loads\<close> reads back
  as \<open>record\<close>.

  \<open>for line in f\<close> does not decode line by line: the text reader takes a block of bytes
  from the file, decodes it, and then yields the lines that the block completes. When a
  block holds bytes that are not UTF-8 the decoding raises \<open>UnicodeDecodeError\<close> before
  any line of that block is yielded. So a file is the list of its blocks, each the list
  of its lines; where the blocks end depends on the lengths of the lines in bytes.
  A file that cannot be opened for reading has \<open>readable = False\<close>.
  The storage is the listing of \<open>DATA_DIR\<close>, in the order the directory gives it: file
  names with their files (empty when the directory does not exist).
\<close>

datatype line = Blank | Record json | Corrupt | Undecodable

record pfile =
  readable :: bool
  blocks :: "line list list"

text \<open>The lines of a file, in order.\<close>

definition content :: "pfile \<Rightarrow> line list" where
  "content f = concat (blocks f)"

type_synonym storage = "(string \<times> pfile) list"

definition os_path_join :: "string \<Rightarrow> string \<Rightarrow> string" where
  "os_path_join d n = d @ ''/'' @ n"

text \<open>
  \<open>open(filename, "a")\<close> and one \<open>write\<close>: the file is created when it is not there, and
  the line comes after all the lines of the file. It is put in a block of its own; when
  its bytes still fit in the last block it is read with that block, and for a record
  that is read to the same result (\<open>kept_lines_append_record\<close>).
\<close>

fun append_line :: "string \<Rightarrow> line \<Rightarrow> storage \<Rightarrow> storage" where
  "append_line n l [] = [(n, \<lparr>readable = True, blocks = [[l]]\<rparr>)]"
| "append_line n l ((m, f) # fs) =
     (if m = n then (m, f\<lparr>blocks := blocks f @ [[l]]\<rparr>) # fs
      else (m, f) # append_line n l fs)"

subsection \<open>collect_data\<close>

text \<open>The handler: \<open>today\<close> and \<open>now\<close> are the two readings of the clock, formatted.\<close>

definition collect_data :: "SystemData \<Rightarrow> string \<Rightarrow> string \<Rightarrow> string \<Rightarrow> storage \<Rightarrow> json \<times> storage" where
  "collect_data data client_ip today now fs =
     (let filename = client_ip @ ''_'' @ today @ ''.jsonl'';
          record = JObject [(''server_timestamp'', JString now), (''payload'', model_dump data)]
      in (JObject [(''status'', JString ''success''),
                   (''message'', JString (''Datos recibidos de '' @ client_ip))],
          append_line filename (Record record) fs))"

text \<open>
  A request to \<open>POST /collect\<close>: the \<open>Authorization\<close> header when there is one, the decoded
  JSON body, the address of the client.
\<close>

record request =
  authorization :: "string option"
  body :: json
  client_host :: string

text \<open>
  The route: the dependency \<open>verify_token\<close> runs first (a request without the required
  header fails validation before it is called), then the body is validated against
  \<open>SystemData\<close>, then the handler runs. Every failure leaves the storage as it was.
\<close>

definition post_collect ::
  "lax_mode \<Rightarrow> request \<Rightarrow> string \<Rightarrow> string \<Rightarrow> storage \<Rightarrow> (failure + json) \<times> storage" where
  "post_collect lax req today now fs =
     (case authorization req of
        None \<Rightarrow> (Inl RequestValidationError, fs)
      | Some a \<Rightarrow>
          (case verify_token a of
             Inl e \<Rightarrow> (Inl e, fs)
           | Inr u \<Rightarrow>
               (case validate_SystemData lax (body req) of
                  None \<Rightarrow> (Inl RequestValidationError, fs)
                | Some data \<Rightarrow>
                    (case collect_data data (client_host req) today now fs of
                       (resp, fs') \<Rightarrow> (Inr resp, fs')))))"

subsection \<open>glob\<close>

text \<open>
  \<open>fnmatch\<close> translates a pattern into a regular expression and matches the whole name
  against it. The pattern language: \<open>*\<close> is any text, \<open>?\<close> any one character,
  \<open>[seq]\<close> one character of \<open>seq\<close> (with ranges \<open>a-z\<close>), \<open>[!seq]\<close> one character not in
  \<open>seq\<close>; a \<open>[\<close> that no \<open>]\<close> closes stands for itself. Matching is case-sensitive
  (POSIX).
\<close>

datatype tok = Star | AnyChar | Lit char | CharClass string

text \<open>
  The index of the \<open>]\<close> that closes a bracket, in the text after the \<open>[\<close>: a leading
  \<open>!\<close> and a \<open>]\<close> right after it are skipped, then the first \<open>]\<close> is taken.
\<close>

definition bracket_end :: "string \<Rightarrow> nat option" where
  "bracket_end s =
     (let j0 = (if 0 < length s \<and> s ! 0 = CHR ''!'' then 1 else 0);
          j1 = (if j0 < length s \<and> s ! j0 = CHR '']'' then j0 + 1 else j0);
          rest = drop j1 s
      in if CHR '']'' \<in> set rest
         then Some (j1 + length (takeWhile (\<lambda>c. c \<noteq> CHR '']'') rest))
         else None)"

text \<open>The first argument counts the characters still to skip after a bracket was read.\<close>

fun translate_from :: "nat \<Rightarrow> string \<Rightarrow> tok list" where
  "translate_from n [] = []"
| "translate_from (Suc n) (c # cs) = translate_from n cs"
| "translate_from 0 (c # cs) =
     (if c = CHR ''*'' then Star # translate_from 0 cs
      else if c = CHR ''?'' then AnyChar # translate_from 0 cs
      else if c = CHR ''['' then
        (case bracket_end cs of
           None \<Rightarrow> Lit c # translate_from 0 cs
         | Some j \<Rightarrow> CharClass (take j cs) # translate_from (Suc j) cs)
      else Lit c # translate_from 0 cs)"

definition translate :: "string \<Rightarrow> tok list" where
  "translate pat = translate_from 0 pat"

fun in_seq :: "string \<Rightarrow> char \<Rightarrow> bool" where
  "in_seq [] x = False"
| "in_seq (a # b # c # rest) x =
     (if b = CHR ''-'' then (a \<le> x \<and> x \<le> c) \<or> in_seq rest x
      else a = x \<or> in_seq (b # c # rest) x)"
| "in_seq (a # rest) x = (a = x \<or> in_seq rest x)"

fun in_class :: "string \<Rightarrow> char \<Rightarrow> bool" where
  "in_class [] x = False"
| "in_class (a # seq) x = (if a = CHR ''!'' then \<not> in_seq seq x else in_seq (a # seq) x)"

fun match_toks :: "tok list \<Rightarrow> string \<Rightarrow> bool" where
  "match_toks [] s = (s = [])"
| "match_toks (Star # ts) [] = match_toks ts []"
| "match_toks (Star # ts) (x # xs) = (match_toks ts (x # xs) \<or> match_toks (Star # ts) xs)"
| "match_toks (AnyChar # ts) [] = False"
| "match_toks (AnyChar # ts) (x # xs) = match_toks ts xs"
| "match_toks (Lit c # ts) [] = False"
| "match_toks (Lit c # ts) (x # xs) = (x = c \<and> match_toks ts xs)"
| "match_toks (CharClass seq # ts) [] = False"
| "match_toks (CharClass seq # ts) (x # xs) = (in_class seq x \<and> match_toks ts xs)"

definition fnmatch :: "string \<Rightarrow> string \<Rightarrow> bool" where
  "fnmatch n pat = match_toks (translate pat) n"


fun ishidden :: "string \<Rightarrow> bool" where
  "ishidden [] = False"
| "ishidden (c # cs) = (c = CHR ''.'')"

text \<open>
  The names of the directory that match the pattern; a name that starts with a dot only
  matches a pattern that starts with a dot.
\<close>

definition glob1 :: "storage \<Rightarrow> string \<Rightarrow> string list" where
  "glob1 fs pat =
     filter (\<lambda>n. (ishidden pat \<or> \<not> ishidden n) \<and> fnmatch n pat) (map fst fs)"

definition glob_glob :: "storage \<Rightarrow> string \<Rightarrow> string \<Rightarrow> string list" where
  "glob_glob fs dir pat = map (os_path_join dir) (glob1 fs pat)"

subsection \<open>query_data\<close>

definition open_read :: "storage \<Rightarrow> string \<Rightarrow> pfile option" where
  "open_read fs file_path =
     (case map_of (map (\<lambda>(n, f). (os_path_join DATA_DIR n, f)) fs) file_path of
        None \<Rightarrow> None
      | Some f \<Rightarrow> if readable f then Some f else None)"

text \<open>
  The inner loop over the lines of one decoded block. \<open>all_records\<close> is appended to in
  place, so what was appended before an exception stays. The result says whether an
  exception was raised, and gives \<open>all_records\<close> as the loop left it. (A decoded block
  has no undecodable line; the last equation is there for totality.)
\<close>

fun read_lines :: "line list \<Rightarrow> json list \<Rightarrow> bool \<times> json list" where
  "read_lines [] all_records = (False, all_records)"
| "read_lines (Blank # ls) all_records = read_lines ls all_records"
| "read_lines (Record v # ls) all_records = read_lines ls (all_records @ [v])"
| "read_lines (Corrupt # ls) all_records = (True, all_records)"
| "read_lines (Undecodable # ls) all_records = (True, all_records)"

text \<open>
  The inner loop over the file: block after block is decoded and its lines are read. A
  block with an undecodable line raises when it is decoded, before any of its lines is
  seen; \<open>json.loads\<close> raises at a corrupt line, after the lines before it were appended.
\<close>

fun read_blocks :: "line list list \<Rightarrow> json list \<Rightarrow> bool \<times> json list" where
  "read_blocks [] all_records = (False, all_records)"
| "read_blocks (b # bs) all_records =
     (if Undecodable \<in> set b then (True, all_records)
      else (case read_lines b all_records of
              (raised, recs) \<Rightarrow> if raised then (True, recs) else read_blocks bs recs))"

text \<open>
  The body of the outer loop, with its \<open>try\<close>: the state is \<open>all_records\<close> and the list of
  files for which the warning was printed.
\<close>

fun read_file :: "storage \<Rightarrow> string \<Rightarrow> json list \<times> string list \<Rightarrow> json list \<times> string list" where
  "read_file fs file_path (all_records, warned) =
     (case open_read fs file_path of
        None \<Rightarrow> (all_records, warned @ [file_path])
      | Some f \<Rightarrow>
          (case read_blocks (blocks f) all_records of
             (raised, recs) \<Rightarrow> (recs, if raised then warned @ [file_path] else warned)))"

text \<open>The result of a successful query: the records returned, and the warnings printed.\<close>

definition query_data :: "storage \<Rightarrow> string \<Rightarrow> failure + (json list \<times> string list)" where
  "query_data fs ip_address =
     (let matching_files = glob_glob fs DATA_DIR (ip_address @ ''_*.jsonl'')
      in if matching_files = [] then
           Inl (HTTPException 404 (''No se encontraron datos para la IP: '' @ ip_address))
         else Inr (fold (read_file fs) (rev (sort matching_files)) ([], [])))"

subsection \<open>Notions of the specification\<close>

text \<open>The records of the lines of a file, in line order.\<close>

fun records_of :: "line list \<Rightarrow> json list" where
  "records_of [] = []"
| "records_of (Record v # ls) = v # records_of ls"
| "records_of (l # ls) = records_of ls"

text \<open>A file with a line at which the reading loop raises.\<close>

definition unparseable :: "pfile \<Rightarrow> bool" where
  "unparseable f = (Corrupt \<in> set (content f) \<or> Undecodable \<in> set (content f))"

text \<open>
  The lines of a file that are read before the first exception: the blocks before the
  first block with an unparseable line, and of that block nothing when it has an
  undecodable line, else its lines before the first corrupt one.
\<close>

fun kept_lines :: "line list list \<Rightarrow> line list" where
  "kept_lines [] = []"
| "kept_lines (b # bs) =
     (if Undecodable \<in> set b then []
      else if Corrupt \<in> set b then takeWhile (\<lambda>l. l \<noteq> Corrupt) b
      else b @ kept_lines bs)"

text \<open>
  What one matching file adds to the result of a query: nothing when it cannot be
  opened, otherwise the records of the lines read before the first exception. For a file
  without undecodable line these are the lines up to the first corrupt one
  (\<open>kept_lines_decodable\<close>), for a file without unparseable line all its lines
  (\<open>file_records_clean\<close>).
\<close>

definition file_records :: "storage \<Rightarrow> string \<Rightarrow> json list" where
  "file_records fs file_path =
     (case open_read fs file_path of
        None \<Rightarrow> []
      | Some f \<Rightarrow> records_of (kept_lines (blocks f)))"

text \<open>The shapes the specification gives for the two list fields of a snapshot.\<close>

fun is_str :: "json option \<Rightarrow> bool" where
  "is_str (Some (JString s)) = True"
| "is_str v = False"

fun is_int :: "json option \<Rightarrow> bool" where
  "is_int (Some (JInt i)) = True"
| "is_int v = False"

fun is_str_or_absent :: "json option \<Rightarrow> bool" where
  "is_str_or_absent None = True"
| "is_str_or_absent (Some (JString s)) = True"
| "is_str_or_absent v = False"

fun spec_process :: "json \<Rightarrow> bool" where
  "spec_process (JObject kvs) =
     (is_int (map_of kvs ''pid'') \<and> is_str (map_of kvs ''name'')
      \<and> is_str_or_absent (map_of kvs ''username''))"
| "spec_process v = False"

fun spec_user :: "json \<Rightarrow> bool" where
  "spec_user (JObject kvs) =
     (is_str (map_of kvs ''user'') \<and> is_str_or_absent (map_of kvs ''terminal''))"
| "spec_user v = False"

fun spec_error_marker :: "json \<Rightarrow> bool" where
  "spec_error_marker (JObject kvs) = is_str (map_of kvs ''error'')"
| "spec_error_marker v = False"

fun spec_running_processes :: "json \<Rightarrow> bool" where
  "spec_running_processes (JArray xs) =
     (list_all spec_process xs \<or> (case xs of [x] \<Rightarrow> spec_error_marker x | _ \<Rightarrow> False))"
| "spec_running_processes v = False"

fun spec_logged_in_users :: "json \<Rightarrow> bool" where
  "spec_logged_in_users (JArray xs) = list_all spec_user xs"
| "spec_logged_in_users v = spec_error_marker v"

text \<open>What the validation of a \<open>UserInfo\<close> accepts: \<open>null\<close> counts as absent.\<close>

fun is_str_or_null_or_absent :: "json option \<Rightarrow> bool" where
  "is_str_or_null_or_absent None = True"
| "is_str_or_null_or_absent (Some JNull) = True"
| "is_str_or_null_or_absent (Some (JString s)) = True"
| "is_str_or_null_or_absent v = False"

fun user_shape :: "json \<Rightarrow> bool" where
  "user_shape (JObject kvs) =
     (is_str (map_of kvs ''user'') \<and> is_str_or_null_or_absent (map_of kvs ''terminal''))"
| "user_shape v = False"

section \<open>Example data\<close>

text \<open>
  Concrete requests and storages on which the properties below are evaluated. The
  example bodies hold every number in its declared type, so that no conversion is made
  on them; \<open>lax_plain\<close> converts the small integers exactly and reads no string as a
  number.
\<close>

definition lax_plain :: lax_mode where
  "lax_plain =
     \<lparr>str_as_int = (\<lambda>s. None),
      str_as_float = (\<lambda>s. None),
      int_as_float = (\<lambda>i. if \<bar>i\<bar> \<le> 2 ^ 53 then Some (Finite (of_int i)) else None),
      float_as_int =
        (\<lambda>x. case x of
               Finite r \<Rightarrow> if r = of_int \<lfloor>r\<rfloor> \<and> \<bar>r\<bar> \<le> 2 ^ 53 then Some \<lfloor>r\<rfloor> else None
             | _ \<Rightarrow> None),
      union_prefers_model = False\<rparr>"

definition stored :: "string \<Rightarrow> json" where
  "stored t = JObject [(''server_timestamp'', JString t), (''payload'', JObject [])]"

definition two_days :: storage where
  "two_days =
     [(''1.2.3.4_2024-01-01.jsonl'',
         \<lparr>readable = True, blocks = [[Record (stored ''a''), Record (stored ''b'')]]\<rparr>),
      (''1.2.3.4_2024-01-02.jsonl'',
         \<lparr>readable = True, blocks = [[Record (stored ''c''), Blank, Record (stored ''d'')]]\<rparr>),
      (''1.2.3.40_2024-01-02.jsonl'',
         \<lparr>readable = True, blocks = [[Record (stored ''e'')]]\<rparr>)]"

definition one_bad_line :: storage where
  "one_bad_line =
     [(''1.2.3.4_2024-01-01.jsonl'',
         \<lparr>readable = True, blocks = [[Record (stored ''a''), Corrupt, Record (stored ''b'')]]\<rparr>),
      (''1.2.3.4_2024-01-02.jsonl'',
         \<lparr>readable = True, blocks = [[Record (stored ''c'')]]\<rparr>)]"

text \<open>
  The first day of \<open>undecodable_line\<close> is read in two blocks; the second block has a line
  with bytes that are not UTF-8, after one record and before another.
\<close>

definition undecodable_line :: storage where
  "undecodable_line =
     [(''1.2.3.4_2024-01-01.jsonl'',
         \<lparr>readable = True,
          blocks = [[Record (stored ''a'')],
                    [Record (stored ''b''), Undecodable, Record (stored ''c'')]]\<rparr>),
      (''1.2.3.4_2024-01-02.jsonl'',
         \<lparr>readable = True, blocks = [[Record (stored ''d'')]]\<rparr>)]"

definition empty_file :: storage where
  "empty_file = [(''1.2.3.4_2024-01-01.jsonl'', \<lparr>readable = True, blocks = []\<rparr>)]"

definition snapshot :: "(string \<times> json) list" where
  "snapshot =
     [(''os_name'', JString ''Linux''),
      (''os_version'', JString ''#1 SMP''),
      (''cpu_info'', JObject [(''physical_cores'', JInt 4), (''total_cores'', JInt 8),
                              (''frequency'', JString ''N/A''), (''usage_percent'', JFloat (Finite 3.5))]),
      (''running_processes'', JArray [JObject [(''pid'', JInt 1), (''name'', JString ''init''),
                                               (''username'', JString ''root'')]]),
      (''logged_in_users'', JArray [JObject [(''user'', JString ''ana''),
                                             (''terminal'', JString ''tty1'')]])]"

definition good_request :: request where
  "good_request =
     \<lparr>authorization = Some ''Bearer micompania_secret_token_12345'',
      body = JObject snapshot, client_host = ''1.2.3.4''\<rparr>"

definition mixed_processes :: json where
  "mixed_processes =
     JArray [JObject [(''pid'', JInt 1), (''name'', JString ''init'')],
             JObject [(''colour'', JString ''blue'')]]"


section \<open>Properties of the agent\<close>

lemma collect_processes_returns:
  "(\<forall>m. process_iter h \<noteq> Inl (OtherException m)) \<Longrightarrow> \<exists>ps. collect_processes h = Inr ps"
  by (cases "process_iter h"; cases "projl (process_iter h)")
    (auto simp: collect_processes_def split: sum.splits exn.splits)

lemma get_system_info_returns:
  "(\<forall>m. process_iter h \<noteq> Inl (OtherException m)) \<Longrightarrow>
   \<exists>ps. get_system_info h =
     Inr (JObject [(''os_name'', JString (platform_system h)),
                   (''os_version'', JString (platform_version h)),
                   (''cpu_info'', collect_cpu_info h),
                   (''running_processes'', ps),
                   (''logged_in_users'', collect_users h)])"
  using collect_processes_returns [of h] by (auto simp: get_system_info_def)

text \<open>
  Claim C1 says that \<open>get_system_info\<close> returns a snapshot in every environment, each
  failed query replaced by an error marker. In the environment \<open>host_all_fail\<close> all three
  queries raise, the process listing with an exception that is none of the three psutil
  classes its \<open>except\<close> clause names: the exception leaves the function and no snapshot
  is returned.
\<close>

theorem get_system_info_escapes:
  "get_system_info host_all_fail =
     Inl (OtherException ''[Errno 2] No such file or directory: /proc'')"
  by (simp add: get_system_info_def collect_processes_def host_all_fail_def)

section \<open>Properties of verify_token\<close>

lemma split_not_Nil: "split c s \<noteq> []"
  by (induction s) (auto split: list.splits)

lemma split_sep_Cons: "split c (c # s) = [] # split c s"
  by simp

lemma split_append_sep:
  "c \<notin> set p \<Longrightarrow> split c (p @ c # s) = p # split c s"
  by (induction p) (auto split: list.splits)

lemma split_Bearer:
  "startswith a ''Bearer '' \<Longrightarrow>
   \<exists>r. a = ''Bearer '' @ r \<and> split CHR '' '' a = ''Bearer'' # split CHR '' '' r"
proof -
  assume "startswith a ''Bearer ''"
  then have "take (length ''Bearer '') a = ''Bearer ''"
    by (simp only: startswith_def)
  then obtain r where r: "a = ''Bearer '' @ r"
    by (metis append_take_drop_id)
  have "split CHR '' '' (''Bearer'' @ CHR '' '' # r) = ''Bearer'' # split CHR '' '' r"
    by (rule split_append_sep) simp
  with r show ?thesis
    by simp
qed

text \<open>
  Claim C10: a header \<open>Bearer <secret> <trailing text>\<close> is authorized, whatever the
  trailing text, and \<open>verify_token\<close> is total on header strings: it authorizes or raises
  the 401 error, and never fails with the out-of-bounds error of the index \<open>[1]\<close>.
\<close>

theorem verify_token_trailing_total:
  "verify_token (''Bearer '' @ API_TOKEN @ '' '' @ trailing) = Inr ()
   \<and> (verify_token header = Inr () \<or> (\<exists>detail. verify_token header = Inl (HTTPException 401 detail)))
   \<and> verify_token header \<noteq> Inl (Unhandled IndexError)"
proof -
  have "split CHR '' '' (''Bearer'' @ CHR '' '' # (API_TOKEN @ CHR '' '' # trailing))
          = ''Bearer'' # split CHR '' '' (API_TOKEN @ CHR '' '' # trailing)"
    by (rule split_append_sep) simp
  moreover have "split CHR '' '' (API_TOKEN @ CHR '' '' # trailing) = API_TOKEN # split CHR '' '' trailing"
    by (rule split_append_sep) (simp add: API_TOKEN_def)
  ultimately have "split CHR '' '' (''Bearer '' @ API_TOKEN @ '' '' @ trailing)
          = ''Bearer'' # API_TOKEN # split CHR '' '' trailing"
    by simp
  then have trailing: "verify_token (''Bearer '' @ API_TOKEN @ '' '' @ trailing) = Inr ()"
    by (simp add: verify_token_def startswith_def)
  have total: "verify_token header = Inr () \<or> (\<exists>detail. verify_token header = Inl (HTTPException 401 detail))"
  proof (cases "startswith header ''Bearer ''")
    case False
    then show ?thesis by (simp add: verify_token_def)
  next
    case True
    then obtain r where "split CHR '' '' header = ''Bearer'' # split CHR '' '' r"
      using split_Bearer by blast
    moreover obtain t ts where "split CHR '' '' r = t # ts"
      using split_not_Nil by (cases "split CHR '' '' r") auto
    ultimately show ?thesis
      using True by (simp add: verify_token_def)
  qed
  from total have "verify_token header \<noteq> Inl (Unhandled IndexError)"
    by auto
  with trailing total show ?thesis
    by blast
qed

section \<open>Properties of POST /collect\<close>



lemma validate_SystemData_fields:
  assumes "\<forall>k \<in> set SystemData_fields. map_of kvs' k = map_of kvs k"
  shows "validate_SystemData lax (JObject kvs') = validate_SystemData lax (JObject kvs)"
  using assms by (simp add: SystemData_fields_def)

lemma validate_SystemData_missing:
  assumes "k \<in> set SystemData_fields" and "map_of kvs k = None"
  shows "validate_SystemData lax (JObject kvs) = None"
  using assms by (auto simp: SystemData_fields_def)

text \<open>
  Claim C2, amended. A field of the body outside the declared shape is ignored: two
  bodies that agree on the five declared fields are handled alike, response and storage.
  A body that lacks one of the five declared fields is rejected with the validation
  failure (status 422) and the storage is what it was.
\<close>

theorem extra_fields_ignored:
  "((\<forall>k \<in> set SystemData_fields. map_of kvs' k = map_of kvs k) \<longrightarrow>
      post_collect lax (req\<lparr>body := JObject kvs'\<rparr>) today now fs
        = post_collect lax (req\<lparr>body := JObject kvs\<rparr>) today now fs)
   \<and> (authorization req = Some (''Bearer '' @ API_TOKEN) \<and> body req = JObject kvs
        \<and> k \<in> set SystemData_fields \<and> map_of kvs k = None \<longrightarrow>
      post_collect lax req today now fs = (Inl RequestValidationError, fs))"
proof (intro conjI impI)
  assume "\<forall>k \<in> set SystemData_fields. map_of kvs' k = map_of kvs k"
  then have "validate_SystemData lax (JObject kvs') = validate_SystemData lax (JObject kvs)"
    by (rule validate_SystemData_fields)
  then show "post_collect lax (req\<lparr>body := JObject kvs'\<rparr>) today now fs
        = post_collect lax (req\<lparr>body := JObject kvs\<rparr>) today now fs"
    by (simp add: post_collect_def del: validate_SystemData.simps
        split: option.split sum.split)
next
  assume a: "authorization req = Some (''Bearer '' @ API_TOKEN) \<and> body req = JObject kvs
        \<and> k \<in> set SystemData_fields \<and> map_of kvs k = None"
  then have "k \<in> set SystemData_fields" and "map_of kvs k = None"
    by simp_all
  then have "validate_SystemData lax (JObject kvs) = None"
    by (rule validate_SystemData_missing)
  moreover have "verify_token (''Bearer '' @ API_TOKEN) = Inr ()"
    by (simp add: verify_token_def startswith_def API_TOKEN_def)
  ultimately show "post_collect lax req today now fs = (Inl RequestValidationError, fs)"
    using a by (simp add: post_collect_def del: validate_SystemData.simps)
qed

text \<open>
  Claim C2 as stated fails: the body below is a valid snapshot with the extra top-level
  key \<open>hostname\<close>; with a valid token the request succeeds and a record is written,
  without the extra key.
\<close>

theorem extra_fields_accepted:
  "map_of (snapshot @ [(''hostname'', JString ''web-1'')]) ''hostname'' = Some (JString ''web-1'')
   \<and> ''hostname'' \<notin> set SystemData_fields
   \<and> post_collect lax_plain (good_request\<lparr>body := JObject (snapshot @ [(''hostname'', JString ''web-1'')])\<rparr>)
        ''2024-01-02'' ''2024-01-02T10:00:00'' []
     = (Inr (JObject [(''status'', JString ''success''),
                      (''message'', JString ''Datos recibidos de 1.2.3.4'')]),
        [(''1.2.3.4_2024-01-02.jsonl'',
          \<lparr>readable = True,
           blocks = [[Record (JObject [(''server_timestamp'', JString ''2024-01-02T10:00:00''),
             (''payload'', JObject
               [(''os_name'', JString ''Linux''),
                (''os_version'', JString ''#1 SMP''),
                (''cpu_info'', JObject [(''physical_cores'', JInt 4), (''total_cores'', JInt 8),
                   (''frequency'', JString ''N/A''), (''usage_percent'', JFloat (Finite 3.5)),
                   (''error'', JNull)]),
                (''running_processes'', JArray [JObject [(''pid'', JInt 1), (''name'', JString ''init''),
                                               (''username'', JString ''root'')]]),
                (''logged_in_users'', JArray [JObject [(''user'', JString ''ana''),
                                             (''terminal'', JString ''tty1'')]])])])]]\<rparr>)])"
  by (simp add: post_collect_def good_request_def snapshot_def lax_plain_def verify_token_def
      startswith_def API_TOKEN_def collect_data_def model_dump_def dump_CPUInfo_def
      dump_UserInfo_def opt_int_def opt_float_def opt_str_def SystemData_fields_def)

text \<open>
  The same body with and without the extra key, and the body without \<open>os_name\<close>.
\<close>

theorem extra_fields_ignored_witness:
  "list_all (\<lambda>k. map_of (snapshot @ [(''hostname'', JString ''web-1'')]) k = map_of snapshot k)
      SystemData_fields
   \<and> post_collect lax_plain (good_request\<lparr>body := JObject (snapshot @ [(''hostname'', JString ''web-1'')])\<rparr>)
        ''2024-01-02'' ''2024-01-02T10:00:00'' two_days
     = post_collect lax_plain (good_request\<lparr>body := JObject snapshot\<rparr>)
        ''2024-01-02'' ''2024-01-02T10:00:00'' two_days
   \<and> map_of (tl snapshot) ''os_name'' = None
   \<and> post_collect lax_plain (good_request\<lparr>body := JObject (tl snapshot)\<rparr>)
        ''2024-01-02'' ''2024-01-02T10:00:00'' two_days = (Inl RequestValidationError, two_days)"
proof -
  have h: "\<forall>k \<in> set SystemData_fields.
        map_of (snapshot @ [(''hostname'', JString ''web-1'')]) k = map_of snapshot k"
    by (simp add: SystemData_fields_def snapshot_def)
  have m: "map_of (tl snapshot) ''os_name'' = None"
    by (simp add: snapshot_def)
  have a: "authorization (good_request\<lparr>body := JObject (tl snapshot)\<rparr>) = Some (''Bearer '' @ API_TOKEN)
      \<and> body (good_request\<lparr>body := JObject (tl snapshot)\<rparr>) = JObject (tl snapshot)
      \<and> ''os_name'' \<in> set SystemData_fields"
    by (simp add: good_request_def API_TOKEN_def SystemData_fields_def)
  from extra_fields_ignored [of "snapshot @ [(''hostname'', JString ''web-1'')]" snapshot
      lax_plain good_request "''2024-01-02''" "''2024-01-02T10:00:00''" two_days]
    h have 1: "post_collect lax_plain (good_request\<lparr>body := JObject (snapshot @ [(''hostname'', JString ''web-1'')])\<rparr>)
        ''2024-01-02'' ''2024-01-02T10:00:00'' two_days
     = post_collect lax_plain (good_request\<lparr>body := JObject snapshot\<rparr>)
        ''2024-01-02'' ''2024-01-02T10:00:00'' two_days"
    by blast
  from extra_fields_ignored [where lax = lax_plain
      and req = "good_request\<lparr>body := JObject (tl snapshot)\<rparr>"
      and today = "''2024-01-02''" and now = "''2024-01-02T10:00:00''" and fs = two_days
      and kvs = "tl snapshot" and k = "''os_name''"]
    a m have 2: "post_collect lax_plain (good_request\<lparr>body := JObject (tl snapshot)\<rparr>)
        ''2024-01-02'' ''2024-01-02T10:00:00'' two_days = (Inl RequestValidationError, two_days)"
    by blast
  from h m 1 2 show ?thesis
    by (simp add: list_all_iff)
qed

lemma validate_list_ok: "(validate_list f xs \<noteq> None) = list_all (\<lambda>x. f x \<noteq> None) xs"
  by (induction xs) (auto simp: bind_eq_None_conv)

lemma validate_process_entry_ok: "(validate_process_entry lax x \<noteq> None) = is_object x"
  by (cases x) (simp_all split: option.split del: validate_ProcessInfo.simps)

lemma required_str_ok: "(required validate_str v \<noteq> None) = is_str v"
  by (cases "(validate_str, v)" rule: required.cases; cases "the v") auto

lemma optional_str_ok: "(optional validate_str v \<noteq> None) = is_str_or_null_or_absent v"
  by (cases "(validate_str, v)" rule: optional.cases; cases "the v") auto

lemma validate_UserInfo_ok: "(validate_UserInfo x \<noteq> None) = user_shape x"
proof (cases x)
  case (JObject kvs)
  have "(validate_UserInfo (JObject kvs) \<noteq> None)
      = (required validate_str (map_of kvs ''user'') \<noteq> None
         \<and> optional validate_str (map_of kvs ''terminal'') \<noteq> None)"
    by (auto simp: bind_eq_None_conv)
  with JObject show ?thesis
    by (simp only: required_str_ok optional_str_ok user_shape.simps)
qed simp_all

lemma spec_process_object: "spec_process x \<Longrightarrow> is_object x"
  by (cases x) simp_all

lemma spec_error_marker_object: "spec_error_marker x \<Longrightarrow> is_object x"
  by (cases x) simp_all

lemma is_str_or_absent_weaker: "is_str_or_absent v \<Longrightarrow> is_str_or_null_or_absent v"
  by (cases v rule: is_str_or_absent.cases) simp_all

lemma spec_user_shape: "spec_user x \<Longrightarrow> user_shape x"
  by (cases x) (simp_all add: is_str_or_absent_weaker)

text \<open>
  An object with an integer \<open>pid\<close> and a string \<open>name\<close> becomes a \<open>ProcessInfo\<close>, whatever
  the conversions of the library: its dump has \<open>username\<close> as \<open>null\<close> and not the key that
  is no field of the model.
\<close>

lemma process_entry_normalised:
  "validate_process_entry lax
     (JObject [(''pid'', JInt 7), (''name'', JString ''sh''), (''cwd'', JString ''/tmp'')])
     = Some (PInfo \<lparr>pid = 7, name = ''sh'', username = None\<rparr>)
   \<and> dump_process_entry (PInfo \<lparr>pid = 7, name = ''sh'', username = None\<rparr>)
     = JObject [(''pid'', JInt 7), (''name'', JString ''sh''), (''username'', JNull)]"
  by (simp add: opt_str_def)

text \<open>
  Claim C9, amended. \<open>running_processes\<close> is accepted exactly when it is a sequence of
  objects, whatever their keys; \<open>logged_in_users\<close> exactly when it is an object, whatever
  its keys, or a sequence of objects with a string \<open>user\<close> and a \<open>terminal\<close> that is a
  string, \<open>null\<close> or absent. The shapes of the specification are among the accepted ones.
\<close>

theorem validation_shapes:
  "(validate_running_processes lax v \<noteq> None
      \<longleftrightarrow> (\<exists>xs. v = JArray xs \<and> list_all is_object xs))
   \<and> (validate_logged_in_users v \<noteq> None
      \<longleftrightarrow> is_object v \<or> (\<exists>xs. v = JArray xs \<and> list_all user_shape xs))
   \<and> (spec_running_processes v \<longrightarrow> validate_running_processes lax v \<noteq> None)
   \<and> (spec_logged_in_users v \<longrightarrow> validate_logged_in_users v \<noteq> None)"
proof -
  have p: "validate_running_processes lax v \<noteq> None
      \<longleftrightarrow> (\<exists>xs. v = JArray xs \<and> list_all is_object xs)"
    by (cases v) (simp_all add: validate_list_ok validate_process_entry_ok del: not_None_eq)
  have u: "validate_logged_in_users v \<noteq> None
      \<longleftrightarrow> is_object v \<or> (\<exists>xs. v = JArray xs \<and> list_all user_shape xs)"
    by (cases v) (simp_all add: validate_list_ok validate_UserInfo_ok del: not_None_eq)
  have sp: "validate_running_processes lax v \<noteq> None" if "spec_running_processes v"
  proof -
    from that obtain xs where xs: "v = JArray xs"
      by (cases v) simp_all
    with that have "list_all spec_process xs \<or> (\<exists>x. xs = [x] \<and> spec_error_marker x)"
      by (auto split: list.splits)
    then have "list_all is_object xs"
      by (auto simp: list_all_iff spec_process_object spec_error_marker_object)
    with p xs show ?thesis
      by simp
  qed
  have su: "validate_logged_in_users v \<noteq> None" if "spec_logged_in_users v"
  proof (cases v)
    case (JArray xs)
    with that have "list_all user_shape xs"
      by (auto simp: list_all_iff spec_user_shape)
    with u JArray show ?thesis
      by simp
  next
    case (JObject kvs)
    with u show ?thesis
      by simp
  qed (use that in simp_all)
  from p u sp su show ?thesis
    by blast
qed

text \<open>
  The two error markers of the agent have the shapes of the specification and are
  accepted.
\<close>

theorem validation_shapes_witness:
  "spec_running_processes (JArray [JObject [(''error'', JString ''No se pudo acceder'')]])
   \<and> validate_running_processes lax_plain (JArray [JObject [(''error'', JString ''No se pudo acceder'')]]) \<noteq> None
   \<and> spec_logged_in_users (JObject [(''error'', JString ''denied'')])
   \<and> validate_logged_in_users (JObject [(''error'', JString ''denied'')]) \<noteq> None"
proof -
  have a: "spec_running_processes (JArray [JObject [(''error'', JString ''No se pudo acceder'')]])"
    by simp
  have b: "spec_logged_in_users (JObject [(''error'', JString ''denied'')])"
    by simp
  from validation_shapes [of lax_plain "JArray [JObject [(''error'', JString ''No se pudo acceder'')]]"] a
  have 1: "validate_running_processes lax_plain (JArray [JObject [(''error'', JString ''No se pudo acceder'')]]) \<noteq> None"
    by blast
  from validation_shapes [of lax_plain "JObject [(''error'', JString ''denied'')]"] b
  have 2: "validate_logged_in_users (JObject [(''error'', JString ''denied'')]) \<noteq> None"
    by blast
  from a b 1 2 show ?thesis
    by blast
qed

text \<open>
  Claim C9 as stated fails: a process list that mixes in a dict that is neither a process
  nor an error marker is accepted, and so is a \<open>logged_in_users\<close> object that is no error
  marker.
\<close>

theorem arbitrary_dicts_accepted:
  "validate_running_processes lax_plain mixed_processes
     = Some [PInfo \<lparr>pid = 1, name = ''init'', username = None\<rparr>,
             PDict [(''colour'', JString ''blue'')]]
   \<and> \<not> spec_running_processes mixed_processes
   \<and> validate_logged_in_users (JObject [(''colour'', JString ''blue'')])
     = Some (UDict [(''colour'', JString ''blue'')])
   \<and> \<not> spec_logged_in_users (JObject [(''colour'', JString ''blue'')])"
  by (simp add: mixed_processes_def lax_plain_def)

section \<open>Properties of GET /query\<close>

lemma records_of_append: "records_of (xs @ ys) = records_of xs @ records_of ys"
  by (induction xs rule: records_of.induct) simp_all

lemma takeWhile_clean: "Corrupt \<notin> set ls \<Longrightarrow> takeWhile (\<lambda>l. l \<noteq> Corrupt) ls = ls"
  by (induction ls) auto

lemma takeWhile_clean_append:
  "Corrupt \<notin> set b \<Longrightarrow>
   takeWhile (\<lambda>l. l \<noteq> Corrupt) (b @ ls) = b @ takeWhile (\<lambda>l. l \<noteq> Corrupt) ls"
  by (induction b) auto

lemma takeWhile_first_corrupt:
  "Corrupt \<notin> set pre \<Longrightarrow> takeWhile (\<lambda>l. l \<noteq> Corrupt) (pre @ Corrupt # post) = pre"
  by (induction pre) auto

lemma read_lines_snd:
  "Undecodable \<notin> set ls \<Longrightarrow>
   snd (read_lines ls acc) = acc @ records_of (takeWhile (\<lambda>l. l \<noteq> Corrupt) ls)"
proof (induction ls arbitrary: acc)
  case Nil
  then show ?case by simp
next
  case (Cons l ls)
  then show ?case by (cases l) simp_all
qed

lemma read_lines_fst:
  "Undecodable \<notin> set ls \<Longrightarrow> fst (read_lines ls acc) = (Corrupt \<in> set ls)"
proof (induction ls arbitrary: acc)
  case Nil
  then show ?case by simp
next
  case (Cons l ls)
  then show ?case by (cases l) auto
qed

lemma read_blocks_snd: "snd (read_blocks bs acc) = acc @ records_of (kept_lines bs)"
proof (induction bs arbitrary: acc)
  case Nil
  then show ?case by simp
next
  case (Cons b bs)
  show ?case
  proof (cases "Undecodable \<in> set b")
    case True
    then show ?thesis by simp
  next
    case False
    note decodable = this
    show ?thesis
    proof (cases "Corrupt \<in> set b")
      case True
      with decodable have "fst (read_lines b acc)"
        by (simp add: read_lines_fst)
      with decodable True show ?thesis
        by (simp add: case_prod_beta read_lines_snd)
    next
      case False
      with decodable have "\<not> fst (read_lines b acc)"
        and "snd (read_lines b acc) = acc @ records_of b"
        by (simp_all add: read_lines_fst read_lines_snd takeWhile_clean)
      with decodable False Cons.IH [of "acc @ records_of b"] show ?thesis
        by (simp add: case_prod_beta records_of_append)
    qed
  qed
qed

lemma read_blocks_fst:
  "fst (read_blocks bs acc) = (Corrupt \<in> set (concat bs) \<or> Undecodable \<in> set (concat bs))"
proof (induction bs arbitrary: acc)
  case Nil
  then show ?case by simp
next
  case (Cons b bs)
  show ?case
  proof (cases "Undecodable \<in> set b")
    case True
    then show ?thesis by simp
  next
    case False
    then have "fst (read_lines b acc) = (Corrupt \<in> set b)"
      by (simp add: read_lines_fst)
    with False Cons.IH [of "snd (read_lines b acc)"] show ?thesis
      by (auto simp: case_prod_beta)
  qed
qed

lemma kept_lines_decodable:
  "Undecodable \<notin> set (concat bs) \<Longrightarrow>
   kept_lines bs = takeWhile (\<lambda>l. l \<noteq> Corrupt) (concat bs)"
proof (induction bs)
  case Nil
  then show ?case by simp
next
  case (Cons b bs)
  show ?case
  proof (cases "Corrupt \<in> set b")
    case True
    with Cons.prems show ?thesis
      by (simp add: takeWhile_append1 [where P = "\<lambda>l. l \<noteq> Corrupt" and x = Corrupt])
  next
    case False
    with Cons show ?thesis
      by (simp add: takeWhile_clean_append)
  qed
qed

lemma kept_lines_clean:
  "Corrupt \<notin> set (concat bs) \<Longrightarrow> Undecodable \<notin> set (concat bs) \<Longrightarrow> kept_lines bs = concat bs"
  by (simp add: kept_lines_decodable takeWhile_clean)

lemma kept_lines_first_bad:
  "Corrupt \<notin> set (concat good) \<Longrightarrow> Undecodable \<notin> set (concat good) \<Longrightarrow>
   kept_lines (good @ b # later) = concat good @ kept_lines (b # later)"
  by (induction good) auto

lemma kept_lines_prefix:
  "\<exists>lost. takeWhile (\<lambda>l. l \<noteq> Corrupt \<and> l \<noteq> Undecodable) (concat bs) = kept_lines bs @ lost"
proof (induction bs)
  case Nil
  then show ?case by simp
next
  case (Cons b bs)
  show ?case
  proof (cases "Undecodable \<in> set b")
    case True
    then show ?thesis by simp
  next
    case False
    note decodable = this
    then have same: "takeWhile (\<lambda>l. l \<noteq> Corrupt \<and> l \<noteq> Undecodable) b
        = takeWhile (\<lambda>l. l \<noteq> Corrupt) b"
      by (intro takeWhile_cong) auto
    show ?thesis
    proof (cases "Corrupt \<in> set b")
      case True
      then have "takeWhile (\<lambda>l. l \<noteq> Corrupt \<and> l \<noteq> Undecodable) (b @ concat bs)
          = takeWhile (\<lambda>l. l \<noteq> Corrupt \<and> l \<noteq> Undecodable) b"
        by (simp add: takeWhile_append1 [where x = Corrupt])
      with decodable True same show ?thesis
        by simp
    next
      case False
      with decodable have "takeWhile (\<lambda>l. l \<noteq> Corrupt \<and> l \<noteq> Undecodable) (b @ concat bs)
          = b @ takeWhile (\<lambda>l. l \<noteq> Corrupt \<and> l \<noteq> Undecodable) (concat bs)"
        by (intro takeWhile_append2) auto
      with decodable False Cons.IH show ?thesis
        by auto
    qed
  qed
qed

lemma takeWhile_first_bad:
  "Corrupt \<notin> set pre \<Longrightarrow> Undecodable \<notin> set pre \<Longrightarrow> bad = Corrupt \<or> bad = Undecodable \<Longrightarrow>
   takeWhile (\<lambda>l. l \<noteq> Corrupt \<and> l \<noteq> Undecodable) (pre @ bad # post) = pre"
  by (induction pre) auto

lemma kept_lines_append_record:
  "kept_lines (bs @ [b @ [Record v]]) = kept_lines (bs @ [b, [Record v]])"
proof (induction bs)
  case Nil
  show ?case
    by (simp add: takeWhile_append1 [where P = "\<lambda>l. l \<noteq> Corrupt" and x = Corrupt])
next
  case (Cons c bs)
  then show ?case by simp
qed

lemma read_file_fst: "fst (read_file fs p st) = fst st @ file_records fs p"
proof (cases st)
  case (Pair acc w)
  show ?thesis
  proof (cases "open_read fs p")
    case None
    with Pair show ?thesis by (simp add: file_records_def)
  next
    case (Some f)
    have "fst (case read_blocks (blocks f) acc of
             (raised, recs) \<Rightarrow> (recs, if raised then w @ [p] else w))
          = snd (read_blocks (blocks f) acc)"
      by (simp add: case_prod_beta)
    with Pair Some show ?thesis
      by (simp add: file_records_def read_blocks_snd)
  qed
qed

lemma fold_read_file:
  "fst (fold (read_file fs) ps st) = fst st @ concat (map (file_records fs) ps)"
  by (induction ps arbitrary: st) (simp_all add: read_file_fst)

lemma file_records_clean:
  "open_read fs p = Some f \<Longrightarrow> Corrupt \<notin> set (content f) \<Longrightarrow> Undecodable \<notin> set (content f) \<Longrightarrow>
   file_records fs p = records_of (content f)"
  by (simp add: file_records_def content_def kept_lines_clean)

lemma file_records_corrupt:
  "open_read fs p = Some f \<Longrightarrow> content f = pre @ Corrupt # post \<Longrightarrow> Corrupt \<notin> set pre \<Longrightarrow>
   Undecodable \<notin> set (content f) \<Longrightarrow> file_records fs p = records_of pre"
  by (simp add: file_records_def content_def kept_lines_decodable takeWhile_first_corrupt)

lemma read_file_snd:
  "snd (read_file fs p st) =
     snd st @ (if (case open_read fs p of None \<Rightarrow> True | Some f \<Rightarrow> unparseable f)
               then [p] else [])"
proof (cases st)
  case (Pair acc w)
  show ?thesis
  proof (cases "open_read fs p")
    case None
    with Pair show ?thesis by simp
  next
    case (Some f)
    have "snd (case read_blocks (blocks f) acc of
             (raised, recs) \<Rightarrow> (recs, if raised then w @ [p] else w))
          = (if fst (read_blocks (blocks f) acc) then w @ [p] else w)"
      by (simp add: case_prod_beta)
    with Pair Some show ?thesis
      by (simp add: read_blocks_fst unparseable_def content_def)
  qed
qed

lemma fold_read_file_snd:
  "snd (fold (read_file fs) ps st) =
     snd st @ filter (\<lambda>p. case open_read fs p of None \<Rightarrow> True | Some f \<Rightarrow> unparseable f) ps"
  by (induction ps arbitrary: st) (simp_all add: read_file_snd)

lemma query_data_found:
  assumes "glob_glob fs DATA_DIR (ip @ ''_*.jsonl'') \<noteq> []"
  shows "query_data fs ip =
     Inr (concat (map (file_records fs) (rev (sort (glob_glob fs DATA_DIR (ip @ ''_*.jsonl''))))),
          filter (\<lambda>p. case open_read fs p of None \<Rightarrow> True | Some f \<Rightarrow> unparseable f)
            (rev (sort (glob_glob fs DATA_DIR (ip @ ''_*.jsonl'')))))"
proof -
  let ?files = "rev (sort (glob_glob fs DATA_DIR (ip @ ''_*.jsonl'')))"
  have "fst (fold (read_file fs) ?files ([], [])) = concat (map (file_records fs) ?files)"
    by (simp add: fold_read_file)
  moreover have "snd (fold (read_file fs) ?files ([], []))
      = filter (\<lambda>p. case open_read fs p of None \<Rightarrow> True | Some f \<Rightarrow> unparseable f) ?files"
    by (simp add: fold_read_file_snd)
  ultimately have "fold (read_file fs) ?files ([], [])
      = (concat (map (file_records fs) ?files),
         filter (\<lambda>p. case open_read fs p of None \<Rightarrow> True | Some f \<Rightarrow> unparseable f) ?files)"
    by (metis prod.collapse)
  with assms show ?thesis
    by (simp add: query_data_def Let_def)
qed


text \<open>
  Claim C7: the query fails, with status 404 and a detail that names the address, exactly
  when no file matches \<open><address>_*.jsonl\<close>, and \<open>query_data\<close> raises nothing else (the
  framework's check of the returned list against the annotation \<open>list[dict[str, Any]]\<close>
  comes after the function and is no part of it). When files match and all are empty it
  succeeds with no record.
\<close>

theorem query_data_not_found_iff:
  "(query_data fs ip = Inl (HTTPException 404 (''No se encontraron datos para la IP: '' @ ip))
      \<longleftrightarrow> glob_glob fs DATA_DIR (ip @ ''_*.jsonl'') = [])
   \<and> ((\<exists>e. query_data fs ip = Inl e) \<longleftrightarrow> glob_glob fs DATA_DIR (ip @ ''_*.jsonl'') = [])
   \<and> (glob_glob fs DATA_DIR (ip @ ''_*.jsonl'') \<noteq> []
        \<and> (\<forall>p \<in> set (glob_glob fs DATA_DIR (ip @ ''_*.jsonl'')).
              \<forall>f. open_read fs p = Some f \<longrightarrow> content f = [])
      \<longrightarrow> (\<exists>warned. query_data fs ip = Inr ([], warned)))"
proof -
  let ?m = "glob_glob fs DATA_DIR (ip @ ''_*.jsonl'')"
  have a: "?m = [] \<Longrightarrow>
     query_data fs ip = Inl (HTTPException 404 (''No se encontraron datos para la IP: '' @ ip))"
    by (simp add: query_data_def)
  have b: "?m \<noteq> [] \<Longrightarrow> \<exists>r. query_data fs ip = Inr r"
    by (simp add: query_data_def Let_def)
  have c: "\<exists>warned. query_data fs ip = Inr ([], warned)"
    if ne: "?m \<noteq> []"
      and empty: "\<forall>p \<in> set ?m. \<forall>f. open_read fs p = Some f \<longrightarrow> content f = []"
  proof -
    have "file_records fs p = []" if "p \<in> set ?m" for p
    proof (cases "open_read fs p")
      case None
      then show ?thesis by (simp add: file_records_def)
    next
      case (Some f)
      with empty that have "content f = []"
        by blast
      with file_records_clean [OF Some] show ?thesis
        by simp
    qed
    then have "concat (map (file_records fs) (rev (sort ?m))) = []"
      by simp
    with query_data_found [OF ne] show ?thesis
      by simp
  qed
  from a b c show ?thesis
    by (metis Inl_Inr_False)
qed

text \<open>
  Claim C3, amended. A matching file with an unparseable line is not skipped as a whole,
  and what it adds are records of lines before that line only. The file is read block by
  block: it adds the records of the blocks before the first block that has an
  unparseable line. Of that block it adds nothing when the block has a line that cannot
  be decoded, and the records before its first corrupt line when all its lines are text.
  Nothing after that is read, a warning is printed for the file, the files before and
  after it in the order add what they add anyway, and the request succeeds.
\<close>

theorem corrupt_file_contribution:
  assumes "rev (sort (glob_glob fs DATA_DIR (ip @ ''_*.jsonl''))) = before @ p # after"
    and "open_read fs p = Some f"
    and "blocks f = good @ b # later"
    and "Corrupt \<notin> set (concat good)" and "Undecodable \<notin> set (concat good)"
    and "Corrupt \<in> set b \<or> Undecodable \<in> set b"
  shows "\<exists>warned.
           query_data fs ip =
             Inr (concat (map (file_records fs) before)
                    @ (records_of (concat good)
                       @ (if Undecodable \<in> set b then []
                          else records_of (takeWhile (\<lambda>l. l \<noteq> Corrupt) b)))
                    @ concat (map (file_records fs) after), warned)
           \<and> p \<in> set warned"
proof -
  have ne: "glob_glob fs DATA_DIR (ip @ ''_*.jsonl'') \<noteq> []"
    using assms(1) by auto
  have "kept_lines (blocks f) = concat good @ kept_lines (b # later)"
    using assms(3-5) by (simp add: kept_lines_first_bad)
  moreover have "kept_lines (b # later)
      = (if Undecodable \<in> set b then [] else takeWhile (\<lambda>l. l \<noteq> Corrupt) b)"
    using assms(6) by auto
  ultimately have "file_records fs p
      = records_of (concat good)
          @ (if Undecodable \<in> set b then [] else records_of (takeWhile (\<lambda>l. l \<noteq> Corrupt) b))"
    using assms(2) by (simp add: file_records_def records_of_append)
  moreover have "unparseable f"
    using assms(3,6) by (auto simp: unparseable_def content_def)
  ultimately show ?thesis
    using query_data_found [OF ne] assms(1,2) by simp
qed

text \<open>
  Claim C4, amended. With one unparseable line in a matching file, among lines that are
  blank or valid, the query still returns all records of every sibling file that is
  readable and without unparseable line. Of the file itself it returns records of lines
  before the bad line only, in line order: all of them when the bad line is text that
  \<open>json.loads\<close> rejects, and a part of them from the start (those of the blocks read
  before the block of the bad line) when the bad line cannot be decoded. The lines after
  the bad line are not read.
\<close>

theorem lines_before_corrupt_and_siblings:
  assumes "p \<in> set (glob_glob fs DATA_DIR (ip @ ''_*.jsonl''))"
    and "open_read fs p = Some f"
    and "content f = pre @ bad # post"
    and "bad = Corrupt \<or> bad = Undecodable"
    and "Corrupt \<notin> set pre" and "Undecodable \<notin> set pre"
    and "Corrupt \<notin> set post" and "Undecodable \<notin> set post"
  shows "\<exists>recs warned lost.
           query_data fs ip = Inr (recs, warned)
           \<and> recs = concat (map (file_records fs)
                        (rev (sort (glob_glob fs DATA_DIR (ip @ ''_*.jsonl'')))))
           \<and> (\<forall>q g. q \<in> set (glob_glob fs DATA_DIR (ip @ ''_*.jsonl'')) \<and> q \<noteq> p
                    \<and> open_read fs q = Some g
                    \<and> Corrupt \<notin> set (content g) \<and> Undecodable \<notin> set (content g)
                  \<longrightarrow> file_records fs q = records_of (content g)
                      \<and> set (records_of (content g)) \<subseteq> set recs)
           \<and> records_of pre = file_records fs p @ lost
           \<and> (bad = Corrupt \<longrightarrow> file_records fs p = records_of pre
                                \<and> set (records_of pre) \<subseteq> set recs)"
proof -
  let ?m = "glob_glob fs DATA_DIR (ip @ ''_*.jsonl'')"
  let ?recs = "concat (map (file_records fs) (rev (sort ?m)))"
  have ne: "?m \<noteq> []"
    using assms(1) by auto
  have mem: "set (file_records fs q) \<subseteq> set ?recs" if "q \<in> set ?m" for q
    using that by auto
  have sib: "file_records fs q = records_of (content g) \<and> set (records_of (content g)) \<subseteq> set ?recs"
    if "q \<in> set ?m" "open_read fs q = Some g"
      "Corrupt \<notin> set (content g)" "Undecodable \<notin> set (content g)" for q g
    using mem [OF that(1)] file_records_clean [OF that(2-4)] by simp
  have "takeWhile (\<lambda>l. l \<noteq> Corrupt \<and> l \<noteq> Undecodable) (concat (blocks f)) = pre"
    using assms(3-6) by (simp add: content_def [symmetric] takeWhile_first_bad)
  with kept_lines_prefix [of "blocks f"] obtain lost_lines
    where "pre = kept_lines (blocks f) @ lost_lines"
    by auto
  then have "records_of pre = records_of (kept_lines (blocks f)) @ records_of lost_lines"
    by (simp add: records_of_append [symmetric])
  with assms(2) have lost: "records_of pre = file_records fs p @ records_of lost_lines"
    by (simp add: file_records_def)
  have cor: "file_records fs p = records_of pre \<and> set (records_of pre) \<subseteq> set ?recs"
    if "bad = Corrupt"
  proof -
    from that assms(3,6,8) have "Undecodable \<notin> set (content f)"
      by simp
    with that assms(2,3,5) have "file_records fs p = records_of pre"
      by (simp add: file_records_corrupt)
    with mem [OF assms(1)] show ?thesis
      by simp
  qed
  from query_data_found [OF ne] sib lost cor show ?thesis
    by blast
qed

subsection \<open>The query on the example storages\<close>


lemma glob_one_bad_line:
  "glob_glob one_bad_line DATA_DIR ''1.2.3.4_*.jsonl''
     = [''data/1.2.3.4_2024-01-01.jsonl'', ''data/1.2.3.4_2024-01-02.jsonl'']"
  by (simp add: one_bad_line_def glob_glob_def glob1_def fnmatch_def translate_def DATA_DIR_def
      os_path_join_def)

lemma glob_undecodable_line:
  "glob_glob undecodable_line DATA_DIR ''1.2.3.4_*.jsonl''
     = [''data/1.2.3.4_2024-01-01.jsonl'', ''data/1.2.3.4_2024-01-02.jsonl'']"
  by (simp add: undecodable_line_def glob_glob_def glob1_def fnmatch_def translate_def DATA_DIR_def
      os_path_join_def)

lemma open_one_bad_line:
  "open_read one_bad_line ''data/1.2.3.4_2024-01-01.jsonl''
     = Some \<lparr>readable = True,
             blocks = [] @ [Record (stored ''a''), Corrupt, Record (stored ''b'')] # []\<rparr>"
  "open_read one_bad_line ''data/1.2.3.4_2024-01-02.jsonl''
     = Some \<lparr>readable = True, blocks = [[Record (stored ''c'')]]\<rparr>"
  by (simp_all add: one_bad_line_def open_read_def DATA_DIR_def os_path_join_def)

lemma open_undecodable_line:
  "open_read undecodable_line ''data/1.2.3.4_2024-01-01.jsonl''
     = Some \<lparr>readable = True,
             blocks = [[Record (stored ''a'')]]
                 @ [Record (stored ''b''), Undecodable, Record (stored ''c'')] # []\<rparr>"
  "open_read undecodable_line ''data/1.2.3.4_2024-01-02.jsonl''
     = Some \<lparr>readable = True, blocks = [[Record (stored ''d'')]]\<rparr>"
  by (simp_all add: undecodable_line_def open_read_def DATA_DIR_def os_path_join_def)

text \<open>
  A file of three lines in one block, the second not UTF-8: the block does not decode and
  no record of the file is returned, the first one neither.
\<close>

lemma undecodable_line_loses_block:
  "query_data
     [(''1.2.3.4_2024-01-01.jsonl'',
         \<lparr>readable = True,
          blocks = [[Record (stored ''a''), Undecodable, Record (stored ''b'')]]\<rparr>)]
     ''1.2.3.4''
   = Inr ([], [''data/1.2.3.4_2024-01-01.jsonl''])"
  by (simp add: query_data_def glob_glob_def glob1_def fnmatch_def translate_def DATA_DIR_def
      os_path_join_def open_read_def)


text \<open>
  One matching file that is empty: the query succeeds with no record. No file of
  \<open>10.0.0.7\<close>: not found.
\<close>

theorem query_data_not_found_iff_witness:
  "glob_glob empty_file DATA_DIR (''1.2.3.4'' @ ''_*.jsonl'') = [''data/1.2.3.4_2024-01-01.jsonl'']
   \<and> open_read empty_file ''data/1.2.3.4_2024-01-01.jsonl'' = Some \<lparr>readable = True, blocks = []\<rparr>
   \<and> content \<lparr>readable = True, blocks = []\<rparr> = []
   \<and> (\<exists>warned. query_data empty_file ''1.2.3.4'' = Inr ([], warned))
   \<and> glob_glob empty_file DATA_DIR (''10.0.0.7'' @ ''_*.jsonl'') = []
   \<and> query_data empty_file ''10.0.0.7''
       = Inl (HTTPException 404 ''No se encontraron datos para la IP: 10.0.0.7'')"
proof -
  have g: "glob_glob empty_file DATA_DIR (''1.2.3.4'' @ ''_*.jsonl'') = [''data/1.2.3.4_2024-01-01.jsonl'']"
    by (simp add: empty_file_def glob_glob_def glob1_def fnmatch_def translate_def DATA_DIR_def
        os_path_join_def)
  have f: "open_read empty_file ''data/1.2.3.4_2024-01-01.jsonl'' = Some \<lparr>readable = True, blocks = []\<rparr>"
    by (simp add: empty_file_def open_read_def DATA_DIR_def os_path_join_def)
  have c: "content \<lparr>readable = True, blocks = []\<rparr> = []"
    by (simp add: content_def)
  have n: "glob_glob empty_file DATA_DIR (''10.0.0.7'' @ ''_*.jsonl'') = []"
    by (simp add: empty_file_def glob_glob_def glob1_def fnmatch_def translate_def DATA_DIR_def
        os_path_join_def)
  from g f c have e: "\<forall>p \<in> set (glob_glob empty_file DATA_DIR (''1.2.3.4'' @ ''_*.jsonl'')).
      \<forall>f. open_read empty_file p = Some f \<longrightarrow> content f = []"
    by simp
  from g have ne: "glob_glob empty_file DATA_DIR (''1.2.3.4'' @ ''_*.jsonl'') \<noteq> []"
    by simp
  from query_data_not_found_iff [of empty_file "''1.2.3.4''"] ne e
  have 1: "\<exists>warned. query_data empty_file ''1.2.3.4'' = Inr ([], warned)"
    by blast
  from query_data_not_found_iff [of empty_file "''10.0.0.7''"] n
  have 2: "query_data empty_file ''10.0.0.7''
       = Inl (HTTPException 404 (''No se encontraron datos para la IP: '' @ ''10.0.0.7''))"
    by blast
  from g f c n 1 2 show ?thesis
    by simp
qed

text \<open>
  The storage \<open>one_bad_line\<close>: the first day has a record, a corrupt line and another
  record, in one block; the second day has one record. The first record of the first day
  is returned after the record of the second day.
  The storage \<open>undecodable_line\<close>: the bad line of the first day cannot be decoded and is
  in the second block, after a record of that block; only the record of the first block
  is returned after the record of the second day.
\<close>

theorem corrupt_file_contribution_witness:
  "rev (sort (glob_glob one_bad_line DATA_DIR (''1.2.3.4'' @ ''_*.jsonl'')))
     = [''data/1.2.3.4_2024-01-02.jsonl''] @ ''data/1.2.3.4_2024-01-01.jsonl'' # []
   \<and> Corrupt \<in> set [Record (stored ''a''), Corrupt, Record (stored ''b'')]
   \<and> (\<exists>warned. query_data one_bad_line ''1.2.3.4'' = Inr ([stored ''c'', stored ''a''], warned)
         \<and> ''data/1.2.3.4_2024-01-01.jsonl'' \<in> set warned)
   \<and> rev (sort (glob_glob undecodable_line DATA_DIR (''1.2.3.4'' @ ''_*.jsonl'')))
     = [''data/1.2.3.4_2024-01-02.jsonl''] @ ''data/1.2.3.4_2024-01-01.jsonl'' # []
   \<and> Undecodable \<in> set [Record (stored ''b''), Undecodable, Record (stored ''c'')]
   \<and> (\<exists>warned. query_data undecodable_line ''1.2.3.4'' = Inr ([stored ''d'', stored ''a''], warned)
         \<and> ''data/1.2.3.4_2024-01-01.jsonl'' \<in> set warned)"
proof -
  have s: "rev (sort (glob_glob one_bad_line DATA_DIR (''1.2.3.4'' @ ''_*.jsonl'')))
     = [''data/1.2.3.4_2024-01-02.jsonl''] @ ''data/1.2.3.4_2024-01-01.jsonl'' # []"
    by (simp add: glob_one_bad_line)
  have b: "blocks \<lparr>readable = True,
             blocks = [] @ [Record (stored ''a''), Corrupt, Record (stored ''b'')] # []\<rparr>
      = [] @ [Record (stored ''a''), Corrupt, Record (stored ''b'')] # []"
    by simp
  have c: "Corrupt \<in> set [Record (stored ''a''), Corrupt, Record (stored ''b'')]"
    by simp
  have "file_records one_bad_line ''data/1.2.3.4_2024-01-02.jsonl'' = [stored ''c'']"
    by (simp add: file_records_def open_one_bad_line)
  with corrupt_file_contribution [OF s open_one_bad_line(1) b _ _ disjI1, OF _ _ c]
  have 1: "\<exists>warned. query_data one_bad_line ''1.2.3.4'' = Inr ([stored ''c'', stored ''a''], warned)
         \<and> ''data/1.2.3.4_2024-01-01.jsonl'' \<in> set warned"
    by simp
  have s': "rev (sort (glob_glob undecodable_line DATA_DIR (''1.2.3.4'' @ ''_*.jsonl'')))
     = [''data/1.2.3.4_2024-01-02.jsonl''] @ ''data/1.2.3.4_2024-01-01.jsonl'' # []"
    by (simp add: glob_undecodable_line)
  have b': "blocks \<lparr>readable = True,
             blocks = [[Record (stored ''a'')]]
                 @ [Record (stored ''b''), Undecodable, Record (stored ''c'')] # []\<rparr>
      = [[Record (stored ''a'')]] @ [Record (stored ''b''), Undecodable, Record (stored ''c'')] # []"
    by simp
  have u: "Undecodable \<in> set [Record (stored ''b''), Undecodable, Record (stored ''c'')]"
    by simp
  have "file_records undecodable_line ''data/1.2.3.4_2024-01-02.jsonl'' = [stored ''d'']"
    by (simp add: file_records_def open_undecodable_line)
  with corrupt_file_contribution [OF s' open_undecodable_line(1) b' _ _ disjI2, OF _ _ u]
  have 2: "\<exists>warned. query_data undecodable_line ''1.2.3.4'' = Inr ([stored ''d'', stored ''a''], warned)
         \<and> ''data/1.2.3.4_2024-01-01.jsonl'' \<in> set warned"
    by simp
  from s c 1 s' u 2 show ?thesis
    by blast
qed

text \<open>
  Claim C3 as stated fails: the only matching file has an unparseable line, and its first
  record is returned.
\<close>

theorem skipped_file_still_contributes:
  "Corrupt \<in> set [Record (stored ''a''), Corrupt, Record (stored ''b'')]
   \<and> query_data
       [(''1.2.3.4_2024-01-01.jsonl'',
           \<lparr>readable = True,
            blocks = [[Record (stored ''a''), Corrupt, Record (stored ''b'')]]\<rparr>)]
       ''1.2.3.4''
     = Inr ([stored ''a''], [''data/1.2.3.4_2024-01-01.jsonl''])"
  by (simp add: query_data_def glob_glob_def glob1_def fnmatch_def translate_def DATA_DIR_def
      os_path_join_def open_read_def)

text \<open>
  The storage \<open>one_bad_line\<close> again: the record before the corrupt line and the sibling's
  record are returned. The storage \<open>undecodable_line\<close>: of the two records before the
  undecodable line the first is returned, with the sibling's record.
\<close>

theorem lines_before_corrupt_and_siblings_witness:
  "''data/1.2.3.4_2024-01-01.jsonl'' \<in> set (glob_glob one_bad_line DATA_DIR (''1.2.3.4'' @ ''_*.jsonl''))
   \<and> Corrupt \<notin> set [Record (stored ''a'')] \<and> Undecodable \<notin> set [Record (stored ''a'')]
   \<and> Corrupt \<notin> set [Record (stored ''b'')] \<and> Undecodable \<notin> set [Record (stored ''b'')]
   \<and> (\<exists>warned. query_data one_bad_line ''1.2.3.4'' = Inr ([stored ''c'', stored ''a''], warned))
   \<and> ''data/1.2.3.4_2024-01-01.jsonl''
        \<in> set (glob_glob undecodable_line DATA_DIR (''1.2.3.4'' @ ''_*.jsonl''))
   \<and> (\<exists>warned. query_data undecodable_line ''1.2.3.4'' = Inr ([stored ''d'', stored ''a''], warned))"
proof -
  have m: "''data/1.2.3.4_2024-01-01.jsonl'' \<in> set (glob_glob one_bad_line DATA_DIR (''1.2.3.4'' @ ''_*.jsonl''))"
    by (simp add: glob_one_bad_line)
  have c: "content \<lparr>readable = True,
             blocks = [] @ [Record (stored ''a''), Corrupt, Record (stored ''b'')] # []\<rparr>
      = [Record (stored ''a'')] @ Corrupt # [Record (stored ''b'')]"
    by (simp add: content_def)
  have n: "Corrupt \<notin> set [Record (stored ''a'')]" "Undecodable \<notin> set [Record (stored ''a'')]"
    "Corrupt \<notin> set [Record (stored ''b'')]" "Undecodable \<notin> set [Record (stored ''b'')]"
    by simp_all
  have r: "file_records one_bad_line ''data/1.2.3.4_2024-01-02.jsonl'' = [stored ''c'']"
    "file_records one_bad_line ''data/1.2.3.4_2024-01-01.jsonl'' = [stored ''a'']"
    by (simp_all add: file_records_def open_one_bad_line)
  from lines_before_corrupt_and_siblings [OF m open_one_bad_line(1) c disjI1 n, OF refl] r
  have 1: "\<exists>warned. query_data one_bad_line ''1.2.3.4'' = Inr ([stored ''c'', stored ''a''], warned)"
    by (auto simp: glob_one_bad_line)
  have m': "''data/1.2.3.4_2024-01-01.jsonl''
        \<in> set (glob_glob undecodable_line DATA_DIR (''1.2.3.4'' @ ''_*.jsonl''))"
    by (simp add: glob_undecodable_line)
  have c': "content \<lparr>readable = True,
             blocks = [[Record (stored ''a'')]]
                 @ [Record (stored ''b''), Undecodable, Record (stored ''c'')] # []\<rparr>
      = [Record (stored ''a''), Record (stored ''b'')] @ Undecodable # [Record (stored ''c'')]"
    by (simp add: content_def)
  have n': "Corrupt \<notin> set [Record (stored ''a''), Record (stored ''b'')]"
    "Undecodable \<notin> set [Record (stored ''a''), Record (stored ''b'')]"
    "Corrupt \<notin> set [Record (stored ''c'')]" "Undecodable \<notin> set [Record (stored ''c'')]"
    by simp_all
  have r': "file_records undecodable_line ''data/1.2.3.4_2024-01-02.jsonl'' = [stored ''d'']"
    "file_records undecodable_line ''data/1.2.3.4_2024-01-01.jsonl'' = [stored ''a'']"
    by (simp_all add: file_records_def open_undecodable_line)
  from lines_before_corrupt_and_siblings [OF m' open_undecodable_line(1) c' disjI2 n', OF refl] r'
  have 2: "\<exists>warned. query_data undecodable_line ''1.2.3.4'' = Inr ([stored ''d'', stored ''a''], warned)"
    by (auto simp: glob_undecodable_line)
  from m n 1 m' 2 show ?thesis
    by blast
qed

text \<open>
  Claim C4 as stated fails: the record after the bad line is a valid line of the same
  file, and it is not returned.
\<close>

theorem lines_after_corrupt_lost:
  "query_data one_bad_line ''1.2.3.4''
     = Inr ([stored ''c'', stored ''a''], [''data/1.2.3.4_2024-01-01.jsonl''])
   \<and> open_read one_bad_line ''data/1.2.3.4_2024-01-01.jsonl''
     = Some \<lparr>readable = True,
             blocks = [[Record (stored ''a''), Corrupt, Record (stored ''b'')]]\<rparr>
   \<and> stored ''b'' \<notin> set [stored ''c'', stored ''a'']"
  by (simp add: query_data_def one_bad_line_def glob_glob_def glob1_def fnmatch_def translate_def
      DATA_DIR_def os_path_join_def open_read_def stored_def)

section \<open>Collect, then query\<close>



























end
